theory Spec2Isabelle
  imports Main "HOL-Library.Multiset" "HOL-Library.Sublist" "HOL-Library.List_Lexorder" "HOL-Library.AList"
begin

section \<open>Python strings\<close>

text \<open>
  A Python \<open>str\<close> is a sequence of Unicode code points; it is modelled as the list of
  its code points. Lists of naturals are ordered lexicographically
  (\<open>HOL-Library.List_Lexorder\<close>), which is the order \<open>list.sort()\<close> uses on strings.
  \<open>str_lit\<close> turns an ASCII literal of the source into its code points.
\<close>

type_synonym pystr = "nat list"

definition str_lit :: "string \<Rightarrow> pystr" where
  "str_lit s = map of_char s"

text \<open>
  \<open>str.isspace\<close> on one character, as \<open>str.strip()\<close> without an argument uses it:
  TAB..CR, FS..US, space, NEL, NBSP, U+1680, U+2000..U+200A, U+2028, U+2029, U+202F,
  U+205F and U+3000.
\<close>

definition is_space :: "nat \<Rightarrow> bool" where
  "is_space c \<longleftrightarrow>
     (9 \<le> c \<and> c \<le> 13) \<or> (28 \<le> c \<and> c \<le> 32) \<or> c = 133 \<or> c = 160 \<or> c = 5760 \<or>
     (8192 \<le> c \<and> c \<le> 8202) \<or> c = 8232 \<or> c = 8233 \<or> c = 8239 \<or> c = 8287 \<or> c = 12288"

text \<open>
  The line boundaries of \<open>str.splitlines\<close>: LF, VT, FF, CR, FS, GS, RS, NEL, U+2028
  and U+2029 (and CR LF taken as one boundary).
\<close>

definition is_linebreak :: "nat \<Rightarrow> bool" where
  "is_linebreak c \<longleftrightarrow>
     (10 \<le> c \<and> c \<le> 13) \<or> (28 \<le> c \<and> c \<le> 30) \<or> c = 133 \<or> c = 8232 \<or> c = 8233"

definition lstrip_with :: "(nat \<Rightarrow> bool) \<Rightarrow> pystr \<Rightarrow> pystr" where
  "lstrip_with P s = dropWhile P s"

definition rstrip_with :: "(nat \<Rightarrow> bool) \<Rightarrow> pystr \<Rightarrow> pystr" where
  "rstrip_with P s = rev (dropWhile P (rev s))"

definition strip_with :: "(nat \<Rightarrow> bool) \<Rightarrow> pystr \<Rightarrow> pystr" where
  "strip_with P s = rstrip_with P (lstrip_with P s)"

text \<open>\<open>s.strip()\<close>, \<open>s.strip(chars)\<close> and \<open>s.rstrip(chars)\<close>.\<close>

definition strip :: "pystr \<Rightarrow> pystr" where
  "strip s = strip_with is_space s"

definition strip_chars :: "pystr \<Rightarrow> pystr \<Rightarrow> pystr" where
  "strip_chars chars s = strip_with (\<lambda>c. c \<in> set chars) s"

definition rstrip_chars :: "pystr \<Rightarrow> pystr \<Rightarrow> pystr" where
  "rstrip_chars chars s = rstrip_with (\<lambda>c. c \<in> set chars) s"

text \<open>
  \<open>s.splitlines(True)\<close>: the lines of \<open>s\<close>, each with its terminator. The first
  argument is the line read so far. A text that ends in a terminator has no empty last
  line, and the empty text has no line.
\<close>

fun splitlines_from :: "pystr \<Rightarrow> pystr \<Rightarrow> pystr list" where
  "splitlines_from cur [] = (if cur = [] then [] else [cur])"
| "splitlines_from cur (c # cs) =
     (if is_linebreak c then
        (case cs of
           [] \<Rightarrow> [cur @ [c]]
         | d # ds \<Rightarrow>
             if c = 13 \<and> d = 10 then (cur @ [c, d]) # splitlines_from [] ds
             else (cur @ [c]) # splitlines_from [] cs)
      else splitlines_from (cur @ [c]) cs)"

definition splitlines_keepends :: "pystr \<Rightarrow> pystr list" where
  "splitlines_keepends s = splitlines_from [] s"

text \<open>\<open>s.split(sep)\<close> for a separator of one character: never an empty list.\<close>

fun py_split :: "nat \<Rightarrow> pystr \<Rightarrow> pystr list" where
  "py_split sep [] = [[]]"
| "py_split sep (c # cs) =
     (if c = sep then [] # py_split sep cs
      else (case py_split sep cs of
              [] \<Rightarrow> [[c]]
            | p # ps \<Rightarrow> (c # p) # ps))"

text \<open>\<open>s.find(sub)\<close>: the lowest index where \<open>sub\<close> starts in \<open>s\<close>, or \<open>-1\<close>.\<close>

fun find_from :: "nat \<Rightarrow> pystr \<Rightarrow> pystr \<Rightarrow> int" where
  "find_from i sub [] = (if sub = [] then int i else - 1)"
| "find_from i sub (c # cs) =
     (if prefix sub (c # cs) then int i else find_from (Suc i) sub cs)"

definition py_find :: "pystr \<Rightarrow> pystr \<Rightarrow> int" where
  "py_find s sub = find_from 0 sub s"

text \<open>
  The expression of lines 31 and 53 of \<open>github_keys_sync.py\<close>
  (\<^verbatim>\<open>"".join([s for s in key.strip().splitlines(True) if s.strip("\r\n").strip()])\<close>),
  commented there as removing blank lines. A string is true when it is not empty.
\<close>

definition remove_blank_lines :: "pystr \<Rightarrow> pystr" where
  "remove_blank_lines key =
     concat (filter (\<lambda>s. strip (strip_chars [13, 10] s) \<noteq> [])
                    (splitlines_keepends (strip key)))"

section \<open>Errors, collaborators and the state of the run\<close>

text \<open>
  Exceptions are values. \<open>ConnectionError\<close> is raised by \<open>get_repo_contents\<close> with the
  status code; \<open>EmptyInputError\<close> is \<^verbatim>\<open>Exception('ERROR: No users fetched from GitHub')\<close>
  and \<open>NoMatchError\<close> is \<^verbatim>\<open>Exception('ERROR: No AWS key pairs found that match GitHub')\<close>;
  \<open>AttributeError\<close> and \<open>TypeError\<close> are what \<open>lambda_handler\<close> raises on a missing
  environment variable; \<open>UnicodeDecodeError\<close> comes from \<open>decode('utf-8')\<close>;
  \<open>LibraryError\<close> carries an exception raised inside requests, json, jinja2 or boto3
  (a \<open>lib_error\<close>, the text of that exception), none of which is one of the others.
\<close>

type_synonym lib_error = pystr

datatype error =
    ConnectionError int
  | EmptyInputError
  | NoMatchError
  | AttributeError
  | TypeError
  | UnicodeDecodeError
  | LibraryError lib_error

text \<open>An entry of the directory listing (\<open>each\<close>, read as \<open>each['name']\<close>).\<close>

record keyfile =
  name :: pystr

text \<open>
  An HTTP response: \<open>content\<close> is \<open>resp.content.decode('utf-8')\<close>, \<open>None\<close> when the
  body is not UTF-8.
\<close>

record response =
  status_code :: int
  content :: "pystr option"

text \<open>
  What \<open>ec2.import_key_pair\<close> does: it returns, raises
  \<open>botocore.exceptions.ClientError\<close> with an error code, or raises another exception.
\<close>

datatype import_outcome = Imported | ClientError pystr | OtherException

text \<open>The calls made to the cloud provider (EC2 key pairs and S3), in order.\<close>

datatype call =
    ImportKeyPair pystr pystr
  | DescribeKeyPairs
  | DeleteKeyPair pystr
  | UploadFile pystr "pystr option" pystr

text \<open>
  The libraries the program calls are parameters: \<open>requests.get\<close> (\<open>Inl\<close> when it
  raises), \<open>json.loads\<close> on the listing body, opening and rendering the template
  \<open>init.j2\<close>, and the boto3 clients. The key-pair registry of the provider has a state of
  any type \<open>'r\<close>; \<open>delete_key_pair\<close> and \<open>upload_file\<close> give \<open>Some e\<close> when they raise.
\<close>

record 'r collab =
  requests_get :: "pystr \<Rightarrow> (pystr \<times> pystr) list \<Rightarrow> lib_error + response"
  json_loads :: "pystr \<Rightarrow> lib_error + keyfile list"
  template_render :: "(pystr \<times> pystr) list \<Rightarrow> lib_error + pystr"
  import_key_pair :: "'r \<Rightarrow> pystr \<Rightarrow> pystr \<Rightarrow> import_outcome \<times> 'r"
  describe_key_pairs :: "'r \<Rightarrow> lib_error + pystr list"
  delete_key_pair :: "'r \<Rightarrow> pystr \<Rightarrow> lib_error option \<times> 'r"
  upload_file :: "pystr \<Rightarrow> pystr option \<Rightarrow> pystr \<Rightarrow> lib_error option"

text \<open>
  What a run changes: the registry, the file \<open>/tmp/init.conf\<close> (\<open>None\<close> when there is
  no such file) and the log of provider calls.
\<close>

record 'r world =
  registry :: 'r
  init_conf :: "pystr option"
  calls :: "call list"

text \<open>The environment variables (\<open>os.environ.get\<close> gives \<open>None\<close> for an unset one).\<close>

record environ =
  contents_url :: "pystr option"
  github_token :: "pystr option"
  s3_bucket :: "pystr option"
  repo_id :: "pystr option"

section \<open>The program\<close>

definition get_repo_contents ::
  "'r collab \<Rightarrow> pystr \<Rightarrow> (pystr \<times> pystr) list \<Rightarrow> error + keyfile list" where
  "get_repo_contents c dir_path headers =
     (case requests_get c dir_path headers of
        Inl e \<Rightarrow> Inl (LibraryError e)
      | Inr resp \<Rightarrow>
          if (100 \<le> status_code resp \<and> status_code resp < 600) \<and> status_code resp \<noteq> 200
          then Inl (ConnectionError (status_code resp))
          else (case content resp of
                  None \<Rightarrow> Inl UnicodeDecodeError
                | Some body \<Rightarrow>
                    (case json_loads c body of
                       Inl e \<Rightarrow> Inl (LibraryError e)
                     | Inr contents \<Rightarrow> Inr contents)))"

text \<open>
  The loop of \<open>fetch_users\<close>. \<open>user_keys\<close> is a dict: an association list in insertion
  order, where storing under a key that is present replaces its value in place.
\<close>

fun fetch_users_loop ::
  "'r collab \<Rightarrow> keyfile list \<Rightarrow> pystr \<Rightarrow> (pystr \<times> pystr) list \<Rightarrow> (pystr \<times> pystr) list
     \<Rightarrow> error + (pystr \<times> pystr) list" where
  "fetch_users_loop c [] dir_path headers user_keys = Inr user_keys"
| "fetch_users_loop c (each # rest) dir_path headers user_keys =
     (let file_path = dir_path @ name each;
          username = hd (py_split 46 (name each))
      in case requests_get c file_path headers of
           Inl e \<Rightarrow> Inl (LibraryError e)
         | Inr resp \<Rightarrow>
             (case content resp of
                None \<Rightarrow> Inl UnicodeDecodeError
              | Some key \<Rightarrow>
                  let ssh_key = remove_blank_lines key
                  in fetch_users_loop c rest dir_path headers
                       (AList.update username ssh_key user_keys)))"

definition fetch_users ::
  "'r collab \<Rightarrow> keyfile list \<Rightarrow> pystr \<Rightarrow> (pystr \<times> pystr) list
     \<Rightarrow> error + (pystr \<times> pystr) list" where
  "fetch_users c contents dir_path headers = fetch_users_loop c contents dir_path headers []"

definition render_template ::
  "'r collab \<Rightarrow> (pystr \<times> pystr) list \<Rightarrow> 'r world \<Rightarrow> (error + unit) \<times> 'r world" where
  "render_template c user_keys w =
     (if user_keys = [] then (Inl EmptyInputError, w)
      else (case template_render c user_keys of
              Inl e \<Rightarrow> (Inl (LibraryError e), w)
            | Inr config \<Rightarrow>
                let clean_config = remove_blank_lines config
                in (Inr (), w\<lparr>init_conf := Some clean_config\<rparr>)))"

definition upload_to_s3 :: "'r collab \<Rightarrow> pystr option \<Rightarrow> 'r world \<Rightarrow> bool \<times> 'r world" where
  "upload_to_s3 c bucket_name w =
     (let file_path = str_lit ''/tmp/init.conf'';
          filename = last (py_split 47 file_path)
      in case init_conf w of
           None \<Rightarrow> (False, w)
         | Some config \<Rightarrow>
             let w' = w\<lparr>calls := calls w @ [UploadFile file_path bucket_name filename]\<rparr>
             in (case upload_file c file_path bucket_name filename of
                   Some e \<Rightarrow> (False, w')
                 | None \<Rightarrow> (True, w')))"

text \<open>
  The loop of \<open>upload_aws_key_pairs\<close>; \<open>None\<close> is the \<open>return False\<close> of the handler of
  \<open>Exception\<close>. The warning printed for a key that contains \<open>ed25519\<close> changes nothing
  and is left out, as every \<open>print\<close> is.
\<close>

fun upload_aws_key_pairs_loop ::
  "'r collab \<Rightarrow> (pystr \<times> pystr) list \<Rightarrow> pystr list \<Rightarrow> pystr list \<Rightarrow> 'r world
     \<Rightarrow> (pystr list \<times> pystr list) option \<times> 'r world" where
  "upload_aws_key_pairs_loop c [] existing_keys imported_keys w =
     (Some (existing_keys, imported_keys), w)"
| "upload_aws_key_pairs_loop c ((user, key) # rest) existing_keys imported_keys w =
     (let key_name = user @ str_lit ''-gh-key'';
          (outcome, r') = import_key_pair c (registry w) key_name key;
          w' = w\<lparr>registry := r', calls := calls w @ [ImportKeyPair key_name key]\<rparr>
      in case outcome of
           ClientError code \<Rightarrow>
             if code = str_lit ''InvalidKeyPair.Duplicate''
             then upload_aws_key_pairs_loop c rest (existing_keys @ [key_name]) imported_keys w'
             else upload_aws_key_pairs_loop c rest existing_keys imported_keys w'
         | OtherException \<Rightarrow> (None, w')
         | Imported \<Rightarrow>
             upload_aws_key_pairs_loop c rest existing_keys (imported_keys @ [key_name]) w')"

definition upload_aws_key_pairs ::
  "'r collab \<Rightarrow> (pystr \<times> pystr) list \<Rightarrow> 'r world \<Rightarrow> pystr list option \<times> 'r world" where
  "upload_aws_key_pairs c users w =
     (case upload_aws_key_pairs_loop c users [] [] w of
        (None, w') \<Rightarrow> (None, w')
      | (Some (existing_keys, imported_keys), w') \<Rightarrow>
          (Some (sort (existing_keys @ imported_keys)), w'))"

text \<open>The second loop of \<open>clean_aws_key_pairs\<close>, over the sorted marked names.\<close>

fun clean_aws_key_pairs_loop ::
  "'r collab \<Rightarrow> pystr list \<Rightarrow> pystr list \<Rightarrow> pystr list \<Rightarrow> 'r world
     \<Rightarrow> (error + pystr list) \<times> 'r world" where
  "clean_aws_key_pairs_loop c github_keys [] aws_deleted_keys w = (Inr aws_deleted_keys, w)"
| "clean_aws_key_pairs_loop c github_keys (key # rest) aws_deleted_keys w =
     (if key \<notin> set github_keys then
        (let (raised, r') = delete_key_pair c (registry w) key;
             w' = w\<lparr>registry := r', calls := calls w @ [DeleteKeyPair key]\<rparr>
         in case raised of
              Some e \<Rightarrow> (Inl (LibraryError e), w')
            | None \<Rightarrow> clean_aws_key_pairs_loop c github_keys rest (aws_deleted_keys @ [key]) w')
      else clean_aws_key_pairs_loop c github_keys rest aws_deleted_keys w)"

definition clean_aws_key_pairs ::
  "'r collab \<Rightarrow> pystr list \<Rightarrow> 'r world \<Rightarrow> (error + pystr list) \<times> 'r world" where
  "clean_aws_key_pairs c github_keys w =
     (if github_keys = [] then (Inl NoMatchError, w)
      else
        (let w' = w\<lparr>calls := calls w @ [DescribeKeyPairs]\<rparr>
         in case describe_key_pairs c (registry w) of
              Inl e \<Rightarrow> (Inl (LibraryError e), w')
            | Inr key_names \<Rightarrow>
                let aws_key_pairs =
                      sort (filter (\<lambda>key_name. py_find key_name (str_lit ''-gh-key'') \<noteq> - 1)
                                   key_names)
                in clean_aws_key_pairs_loop c github_keys aws_key_pairs [] w'))"

text \<open>\<open>str(os.environ.get('repo_id'))\<close>: the string \<open>None\<close> for an unset variable.\<close>

definition py_str :: "pystr option \<Rightarrow> pystr" where
  "py_str v = (case v of None \<Rightarrow> str_lit ''None'' | Some s \<Rightarrow> s)"

definition github_auth_handler :: "environ \<Rightarrow> pystr \<Rightarrow> bool" where
  "github_auth_handler env req_id =
     (let expected_id = py_str (repo_id env)
      in if expected_id = req_id then True else False)"

text \<open>The response; \<open>body\<close> is the text \<open>json.dumps\<close> gives for the one-entry dict.\<close>

record http_resp =
  statusCode :: int
  body :: pystr

definition http_response :: "int \<Rightarrow> http_resp" where
  \<open>http_response status =
     (if status = 200 then \<lparr>statusCode = 200, body = str_lit ''{"Status": "SUCCESS"}''\<rparr>
      else if status = 403 then \<lparr>statusCode = 403, body = str_lit ''{"Access": "DENIED"}''\<rparr>
      else \<lparr>statusCode = 500, body = str_lit ''{"Status": "FAILED"}''\<rparr>)\<close>

text \<open>
  The values \<open>lambda_handler\<close> binds to \<open>dir\<close> and \<open>hdrs\<close>, from the variables
  \<open>contents_url\<close> and \<open>github_token\<close>.
\<close>

definition dir_of :: "pystr \<Rightarrow> pystr" where
  "dir_of url = rstrip_chars (str_lit ''/'') url @ str_lit ''/''"

definition hdrs_of :: "pystr \<Rightarrow> (pystr \<times> pystr) list" where
  "hdrs_of token =
     [(str_lit ''Authorization'', str_lit ''token '' @ token),
      (str_lit ''Accept'', str_lit ''application/vnd.github.v3.raw'')]"

text \<open>
  \<open>lambda_handler\<close>. \<open>is_local\<close> is the outcome of the test \<open>context is 'local'\<close>;
  \<open>event\<close> is the outcome of \<open>str(loads(event['body'])['repository']['id'])\<close>, \<open>Inl\<close>
  with the exception when that raises.
\<close>

definition lambda_handler ::
  "'r collab \<Rightarrow> environ \<Rightarrow> lib_error + pystr \<Rightarrow> bool \<Rightarrow> 'r world
     \<Rightarrow> (error + http_resp) \<times> 'r world"
  where
  "lambda_handler c env event is_local w =
     (case (if \<not> is_local
            then (case event of
                    Inl e \<Rightarrow> Inl (LibraryError e)
                  | Inr req_repo_id \<Rightarrow> Inr (github_auth_handler env req_repo_id))
            else Inr True) of
        Inl e \<Rightarrow> (Inl e, w)
      | Inr authorized \<Rightarrow>
          if \<not> authorized then (Inr (http_response 403), w)
          else
            (case contents_url env of
               None \<Rightarrow> (Inl AttributeError, w)
             | Some url \<Rightarrow>
                 let dir = dir_of url in
                 (case github_token env of
                    None \<Rightarrow> (Inl TypeError, w)
                  | Some token \<Rightarrow>
                      let hdrs = hdrs_of token in
                      (case get_repo_contents c dir hdrs of
                         Inl e \<Rightarrow> (Inl e, w)
                       | Inr data \<Rightarrow>
                           (case fetch_users c data dir hdrs of
                              Inl e \<Rightarrow> (Inl e, w)
                            | Inr users \<Rightarrow>
                                (case render_template c users w of
                                   (Inl e, w1) \<Rightarrow> (Inl e, w1)
                                 | (Inr u, w1) \<Rightarrow>
                                     (case upload_aws_key_pairs c users w1 of
                                        (None, w2) \<Rightarrow> (Inr (http_response 500), w2)
                                      | (Some [], w2) \<Rightarrow> (Inr (http_response 500), w2)
                                      | (Some (k # ks), w2) \<Rightarrow>
                                          (case clean_aws_key_pairs c (k # ks) w2 of
                                             (Inl e, w3) \<Rightarrow> (Inl e, w3)
                                           | (Inr deleted, w3) \<Rightarrow>
                                               (case upload_to_s3 c (s3_bucket env) w3 of
                                                  (uploaded, w4) \<Rightarrow>
                                                    if uploaded then (Inr (http_response 200), w4)
                                                    else (Inr (http_response 500), w4))))))))))"

text \<open>
  The run gets past the authorization check: it is local, or the request was decoded and
  its repository identifier is the expected one.
\<close>

definition passes_auth :: "environ \<Rightarrow> lib_error + pystr \<Rightarrow> bool \<Rightarrow> bool" where
  "passes_auth env event is_local \<longleftrightarrow>
     is_local \<or> (case event of Inl e \<Rightarrow> False | Inr req_repo_id \<Rightarrow> github_auth_handler env req_repo_id)"

section \<open>Concrete inputs\<close>

text \<open>The environment of the examples: the expected repository identifier is \<open>42\<close>.\<close>

definition env_42 :: environ where
  "env_42 = \<lparr>contents_url = Some (str_lit ''https://api.example/keys/''),
             github_token = Some (str_lit ''t0ken''),
             s3_bucket = Some (str_lit ''bucket''),
             repo_id = Some (str_lit ''42'')\<rparr>"

definition env_unset :: environ where
  "env_unset = env_42\<lparr>repo_id := None\<rparr>"

text \<open>
  A provider for the examples. Its registry is the list of the key-pair names:
  importing a name that is there is the duplicate error, a key of type \<open>ed25519\<close> is
  refused with the code \<open>InvalidKey.Format\<close>, an empty key makes the client raise before
  the request is sent. The listing has the one file \<open>alice.pub\<close>; every other path is
  answered 404.
\<close>

definition keys_dir :: pystr where
  "keys_dir = str_lit ''https://api.example/keys/''"

definition alice_raw :: pystr where
  "alice_raw = str_lit ''ssh-rsa AAAA...'' @ [10, 10]"

definition demo :: "pystr list collab" where
  "demo =
     \<lparr>requests_get = (\<lambda>path headers.
          if path = keys_dir then Inr \<lparr>status_code = 200, content = Some (str_lit ''listing'')\<rparr>
          else if path = keys_dir @ str_lit ''alice.pub''
          then Inr \<lparr>status_code = 200, content = Some alice_raw\<rparr>
          else Inr \<lparr>status_code = 404, content = Some (str_lit ''404: Not Found'')\<rparr>),
      json_loads = (\<lambda>text.
          if text = str_lit ''listing'' then Inr [\<lparr>name = str_lit ''alice.pub''\<rparr>]
          else Inl (str_lit ''JSONDecodeError'')),
      template_render = (\<lambda>users. Inr (concat (map (\<lambda>(u, k). u @ [10, 10] @ k @ [10]) users))),
      import_key_pair = (\<lambda>reg key_name key.
          if key = [] then (OtherException, reg)
          else if py_find key (str_lit ''ed25519'') \<noteq> - 1
          then (ClientError (str_lit ''InvalidKey.Format''), reg)
          else if key_name \<in> set reg then (ClientError (str_lit ''InvalidKeyPair.Duplicate''), reg)
          else (Imported, reg @ [key_name])),
      describe_key_pairs = (\<lambda>reg. Inr reg),
      delete_key_pair = (\<lambda>reg key_name. (None, removeAll key_name reg)),
      upload_file = (\<lambda>file_path bucket_name filename. None)\<rparr>"

definition demo_empty :: "pystr list collab" where
  "demo_empty = demo\<lparr>json_loads := (\<lambda>text. Inr [])\<rparr>"

definition demo_no_upload :: "pystr list collab" where
  "demo_no_upload = demo\<lparr>upload_file := (\<lambda>file_path bucket_name filename. Some (str_lit ''S3UploadFailedError''))\<rparr>"

definition world0 :: "pystr list world" where
  "world0 = \<lparr>registry = [str_lit ''bob-gh-key'', str_lit ''manual-key'', str_lit ''alice-gh-key''],
             init_conf = None, calls = []\<rparr>"

text \<open>
  Keys, and providers whose one key file holds an \<open>ed25519\<close> key or only blank lines;
  a world where the rendered file is there.
\<close>

definition rsa_a :: pystr where "rsa_a = str_lit ''ssh-rsa AAAA...''"
definition ed_c :: pystr where "ed_c = str_lit ''ssh-ed25519 CCCC...''"

definition demo_ed :: "pystr list collab" where
  "demo_ed = demo\<lparr>requests_get := (\<lambda>path headers.
       if path = keys_dir then Inr \<lparr>status_code = 200, content = Some (str_lit ''listing'')\<rparr>
       else Inr \<lparr>status_code = 200, content = Some ed_c\<rparr>)\<rparr>"


definition world_conf :: "pystr list world" where
  "world_conf = world0\<lparr>init_conf := Some (str_lit ''alice'' @ [10] @ rsa_a)\<rparr>"

section \<open>Request authorization\<close>

lemma py_str_Some: "py_str (Some s) = s"
  by (simp add: py_str_def)

lemma py_str_None: "py_str None = str_lit ''None''"
  by (simp add: py_str_def)

text \<open>
  C9: \<open>github_auth_handler\<close> is true exactly when the request's repository identifier
  equals the expected identifier of the environment; it is a function of the environment
  and the request that returns a boolean only. With the expected identifier \<open>42\<close>, the
  request \<open>42\<close> is accepted and the request \<open>43\<close> is refused.
\<close>

theorem github_auth_handler_iff:
  "repo_id env = Some expected \<Longrightarrow> github_auth_handler env req_id \<longleftrightarrow> req_id = expected"
  by (auto simp: github_auth_handler_def py_str_Some)

theorem github_auth_handler_witness:
  "repo_id env_42 = Some (str_lit ''42'')
   \<and> github_auth_handler env_42 (str_lit ''42'')
   \<and> \<not> github_auth_handler env_42 (str_lit ''43'')"
  using github_auth_handler_iff [of env_42 "str_lit ''42''" "str_lit ''42''"]
        github_auth_handler_iff [of env_42 "str_lit ''42''" "str_lit ''43''"]
  by (simp add: env_42_def str_lit_def)

text \<open>
  C10: when the variable \<open>repo_id\<close> is unset, the expected identifier is the string
  \<open>None\<close>, and a request whose repository identifier is the string \<open>None\<close> is
  authorized.
\<close>

theorem github_auth_handler_unset:
  "repo_id env = None \<Longrightarrow>
     (github_auth_handler env req_id \<longleftrightarrow> req_id = str_lit ''None'')
     \<and> github_auth_handler env (str_lit ''None'')"
  by (auto simp: github_auth_handler_def py_str_None)

theorem github_auth_handler_unset_witness:
  "repo_id env_unset = None
   \<and> github_auth_handler env_unset (str_lit ''None'')
   \<and> \<not> github_auth_handler env_unset (str_lit ''42'')"
  using github_auth_handler_unset [of env_unset "str_lit ''42''"]
  by (simp add: env_unset_def env_42_def str_lit_def)

section \<open>Removing blank lines, fetching the keys\<close>








text \<open>
  What a line of \<open>splitlines(True)\<close> is: not empty, with no line boundary before its
  terminator; the terminator is one boundary character or CR LF, or missing (at the end
  of the text).
\<close>

lemma splitlines_from_lines:
  "list_all (\<lambda>c. \<not> is_linebreak c) cur \<Longrightarrow> l \<in> set (splitlines_from cur s) \<Longrightarrow>
     l \<noteq> [] \<and>
     (\<exists>b t. l = b @ t \<and> list_all (\<lambda>c. \<not> is_linebreak c) b \<and>
            (t = [] \<or> t = [13, 10] \<or> (\<exists>c. t = [c] \<and> is_linebreak c)))"
proof (induction cur s rule: splitlines_from.induct)
  case (1 cur)
  then show ?case by (auto split: if_splits)
next
  case (2 cur c cs)
  show ?case
  proof (cases "is_linebreak c")
    case False
    with 2 show ?thesis by simp
  next
    case True
    show ?thesis
    proof (cases cs)
      case Nil
      with 2 True show ?thesis by auto
    next
      case (Cons d ds)
      show ?thesis
      proof (cases "c = 13 \<and> d = 10")
        case crlf: True
        from "2.prems"(2) True Cons crlf
        consider "l = cur @ [13, 10]" | "l \<in> set (splitlines_from [] ds)"
          by auto
        then show ?thesis
        proof cases
          case 1
          with "2.prems"(1) show ?thesis by auto
        next
          case 2
          from "2.IH"(1) [OF True Cons crlf _ 2] show ?thesis by simp
        qed
      next
        case nocrlf: False
        from "2.prems"(2) True Cons nocrlf
        consider "l = cur @ [c]" | "l \<in> set (splitlines_from [] cs)"
          by auto
        then show ?thesis
        proof cases
          case 1
          with "2.prems"(1) True show ?thesis by auto
        next
          case 2
          from "2.IH"(2) [OF True Cons nocrlf _ 2] show ?thesis by simp
        qed
      qed
    qed
  qed
qed

lemma splitlines_keepends_lines:
  "l \<in> set (splitlines_keepends s) \<Longrightarrow>
     l \<noteq> [] \<and>
     (\<exists>b t. l = b @ t \<and> list_all (\<lambda>c. \<not> is_linebreak c) b \<and>
            (t = [] \<or> t = [13, 10] \<or> (\<exists>c. t = [c] \<and> is_linebreak c)))"
  unfolding splitlines_keepends_def by (rule splitlines_from_lines) simp_all


lemmas py_string_defs =
  strip_def strip_chars_def strip_with_def lstrip_with_def rstrip_with_def
  is_space_def is_linebreak_def splitlines_keepends_def str_lit_def





text \<open>
  C2: a file answered with a status that is not 200 should abort the run, as the listing
  does in \<open>get_repo_contents\<close>. \<open>fetch_users\<close> does not read the status: for \<open>bob.pub\<close>,
  answered 404, it stores the body of the answer as the key of \<open>bob\<close> and returns.
\<close>

theorem fetch_users_stores_error_body:
  "fetch_users demo [\<lparr>name = str_lit ''bob.pub''\<rparr>] keys_dir []
     = Inr [(str_lit ''bob'', str_lit ''404: Not Found'')]"
  by (simp add: fetch_users_def demo_def keys_dir_def remove_blank_lines_def py_string_defs)

section \<open>Importing the keys\<close>



lemmas demo_defs = demo_def keys_dir_def world0_def




lemma upload_loop_calls:
  "upload_aws_key_pairs_loop c users ex im w = (res, w') \<Longrightarrow>
     init_conf w' = init_conf w \<and>
     (\<exists>issued. prefix issued users \<and>
        calls w' = calls w @ map (\<lambda>(u, k). ImportKeyPair (u @ str_lit ''-gh-key'') k) issued)"
proof (induction users arbitrary: ex im w)
  case Nil
  then show ?case by auto
next
  case (Cons p users)
  obtain user key where p: "p = (user, key)" by (cases p)
  obtain outcome r' where imp:
    "import_key_pair c (registry w) (user @ str_lit ''-gh-key'') key = (outcome, r')"
    by (cases "import_key_pair c (registry w) (user @ str_lit ''-gh-key'') key")
  define w1 where
    "w1 = w\<lparr>registry := r', calls := calls w @ [ImportKeyPair (user @ str_lit ''-gh-key'') key]\<rparr>"
  show ?case
  proof (cases "outcome = OtherException")
    case True
    with Cons.prems p imp have "w' = w1"
      by (simp add: w1_def Let_def)
    then have "calls w' = calls w @ map (\<lambda>(u, k). ImportKeyPair (u @ str_lit ''-gh-key'') k) [p]"
      and "init_conf w' = init_conf w"
      by (simp_all add: w1_def p)
    moreover have "prefix [p] (p # users)" by simp
    ultimately show ?thesis by blast
  next
    case False
    then obtain ex1 im1 where
      "upload_aws_key_pairs_loop c users ex1 im1 w1 = (res, w')"
      using Cons.prems p imp
      by (cases outcome) (auto simp: w1_def Let_def split: if_splits)
    from Cons.IH [OF this] obtain issued where
      d: "prefix issued users" "init_conf w' = init_conf w1"
        "calls w' = calls w1 @ map (\<lambda>(u, k). ImportKeyPair (u @ str_lit ''-gh-key'') k) issued"
      by blast
    have "prefix (p # issued) (p # users)" using d(1) by simp
    moreover have
      "calls w' = calls w @ map (\<lambda>(u, k). ImportKeyPair (u @ str_lit ''-gh-key'') k) (p # issued)"
      using d(3) by (simp add: w1_def p)
    moreover have "init_conf w' = init_conf w" using d(2) by (simp add: w1_def)
    ultimately show ?thesis by blast
  qed
qed








section \<open>Cleaning the registry\<close>





section \<open>Rendering and the handler\<close>

text \<open>
  C6: \<open>render_template\<close> raises \<open>EmptyInputError\<close> exactly when the map is empty; and
  a run that gets an empty listing ends with that exception and an unchanged world, so
  with no call to the provider.
\<close>

theorem render_template_empty:
  "(fst (render_template c user_keys w) = Inl EmptyInputError \<longleftrightarrow> user_keys = [])
   \<and> (passes_auth env event is_local \<and> contents_url env = Some url \<and>
       github_token env = Some token \<and>
       get_repo_contents c (dir_of url) (hdrs_of token) = Inr [] \<longrightarrow>
         lambda_handler c env event is_local w = (Inl EmptyInputError, w))"
proof -
  have "fst (render_template c user_keys w) = Inl EmptyInputError \<longleftrightarrow> user_keys = []"
    by (simp add: render_template_def split: sum.splits)
  moreover have "lambda_handler c env event is_local w = (Inl EmptyInputError, w)"
    if "passes_auth env event is_local" "contents_url env = Some url"
      "github_token env = Some token"
      "get_repo_contents c (dir_of url) (hdrs_of token) = Inr []"
    using that
    by (auto simp: lambda_handler_def passes_auth_def fetch_users_def render_template_def
             split: sum.splits)
  ultimately show ?thesis by blast
qed

theorem render_template_empty_witness:
  "passes_auth env_42 (Inr (str_lit ''42'')) False
   \<and> contents_url env_42 = Some keys_dir
   \<and> github_token env_42 = Some (str_lit ''t0ken'')
   \<and> get_repo_contents demo_empty (dir_of keys_dir) (hdrs_of (str_lit ''t0ken'')) = Inr []
   \<and> fst (render_template demo_empty [] world0) = Inl EmptyInputError
   \<and> fst (render_template demo_empty [(str_lit ''alice'', rsa_a)] world0) \<noteq> Inl EmptyInputError
   \<and> lambda_handler demo_empty env_42 (Inr (str_lit ''42'')) False world0
       = (Inl EmptyInputError, world0)"
proof -
  have a: "passes_auth env_42 (Inr (str_lit ''42'')) False"
    by (simp add: passes_auth_def github_auth_handler_def py_str_def env_42_def)
  have u: "contents_url env_42 = Some keys_dir"
    by (simp add: env_42_def keys_dir_def)
  have t: "github_token env_42 = Some (str_lit ''t0ken'')"
    by (simp add: env_42_def)
  have d: "dir_of keys_dir = keys_dir"
    by (simp add: dir_of_def keys_dir_def rstrip_chars_def rstrip_with_def str_lit_def)
  have g: "get_repo_contents demo_empty (dir_of keys_dir) (hdrs_of (str_lit ''t0ken'')) = Inr []"
    by (simp add: d get_repo_contents_def demo_empty_def demo_def)
  from render_template_empty [of demo_empty "[]" world0]
  have r1: "fst (render_template demo_empty [] world0) = Inl EmptyInputError"
    by simp
  from render_template_empty [of demo_empty "[(str_lit ''alice'', rsa_a)]" world0]
  have r2: "fst (render_template demo_empty [(str_lit ''alice'', rsa_a)] world0) \<noteq> Inl EmptyInputError"
    by simp
  from render_template_empty
         [of demo_empty "[]" world0 env_42 "Inr (str_lit ''42'')" False keys_dir "str_lit ''t0ken''"]
       a u t g
  have "lambda_handler demo_empty env_42 (Inr (str_lit ''42'')) False world0
       = (Inl EmptyInputError, world0)"
    by blast
  with a u t g r1 r2 show ?thesis by blast
qed

lemma render_template_calls:
  "render_template c users w = (res, w1) \<Longrightarrow> calls w1 = calls w"
  by (auto simp: render_template_def split: if_splits sum.splits)

text \<open>
  C7: when the import returns \<open>False\<close> or the empty list, \<open>lambda_handler\<close> returns the
  response 500 with the body \<open>{"Status": "FAILED"}\<close>, and the only provider calls of
  the run are imports of the keys: no listing or deletion of key pairs, no upload.
\<close>

theorem lambda_handler_import_failure:
  assumes "passes_auth env event is_local"
    and "contents_url env = Some url" and "github_token env = Some token"
    and "get_repo_contents c (dir_of url) (hdrs_of token) = Inr data"
    and "fetch_users c data (dir_of url) (hdrs_of token) = Inr users"
    and "render_template c users w = (Inr u, w1)"
    and "upload_aws_key_pairs c users w1 = (aws_key_pairs, w2)"
    and "aws_key_pairs = None \<or> aws_key_pairs = Some []"
  shows \<open>lambda_handler c env event is_local w
           = (Inr \<lparr>statusCode = 500, body = str_lit ''{"Status": "FAILED"}''\<rparr>, w2)
         \<and> (\<exists>issued. prefix issued users \<and>
               calls w2 = calls w @
                 map (\<lambda>(user, key). ImportKeyPair (user @ str_lit ''-gh-key'') key) issued)\<close>
proof -
  have "lambda_handler c env event is_local w = (Inr (http_response 500), w2)"
    using assms
    by (auto simp: lambda_handler_def passes_auth_def split: sum.splits)
  moreover obtain res where
    "upload_aws_key_pairs_loop c users [] [] w1 = (res, w2)"
    using assms(7)
    by (auto simp: upload_aws_key_pairs_def split: prod.splits option.splits)
  from upload_loop_calls [OF this] render_template_calls [OF assms(6)]
  have "\<exists>issued. prefix issued users \<and>
               calls w2 = calls w @
                 map (\<lambda>(user, key). ImportKeyPair (user @ str_lit ''-gh-key'') key) issued"
    by auto
  ultimately show ?thesis
    by (simp add: http_response_def)
qed

theorem lambda_handler_import_failure_witness:
  \<open>passes_auth env_42 (Inr (str_lit ''42'')) False
   \<and> fetch_users demo_ed [\<lparr>name = str_lit ''alice.pub''\<rparr>] keys_dir (hdrs_of (str_lit ''t0ken''))
       = Inr [(str_lit ''alice'', ed_c)]
   \<and> fst (upload_aws_key_pairs demo_ed [(str_lit ''alice'', ed_c)]
            (world0\<lparr>init_conf := Some (str_lit ''alice'' @ [10] @ ed_c)\<rparr>)) = Some []
   \<and> lambda_handler demo_ed env_42 (Inr (str_lit ''42'')) False world0
       = (Inr \<lparr>statusCode = 500, body = str_lit ''{"Status": "FAILED"}''\<rparr>,
          world0\<lparr>init_conf := Some (str_lit ''alice'' @ [10] @ ed_c),
                 calls := [ImportKeyPair (str_lit ''alice-gh-key'') ed_c]\<rparr>)\<close>
proof -
  let ?w1 = "world0\<lparr>init_conf := Some (str_lit ''alice'' @ [10] @ ed_c)\<rparr>"
  let ?w2 = "world0\<lparr>init_conf := Some (str_lit ''alice'' @ [10] @ ed_c),
                 calls := [ImportKeyPair (str_lit ''alice-gh-key'') ed_c]\<rparr>"
  have a: "passes_auth env_42 (Inr (str_lit ''42'')) False"
    by (simp add: passes_auth_def github_auth_handler_def py_str_def env_42_def)
  have u: "contents_url env_42 = Some keys_dir"
    by (simp add: env_42_def keys_dir_def)
  have t: "github_token env_42 = Some (str_lit ''t0ken'')"
    by (simp add: env_42_def)
  have d: "dir_of keys_dir = keys_dir"
    by (simp add: dir_of_def keys_dir_def rstrip_chars_def rstrip_with_def str_lit_def)
  have g: "get_repo_contents demo_ed (dir_of keys_dir) (hdrs_of (str_lit ''t0ken''))
             = Inr [\<lparr>name = str_lit ''alice.pub''\<rparr>]"
    by (simp add: d get_repo_contents_def demo_ed_def demo_def)
  have k: "remove_blank_lines ed_c = ed_c"
    by (simp add: remove_blank_lines_def ed_c_def py_string_defs)
  have f: "fetch_users demo_ed [\<lparr>name = str_lit ''alice.pub''\<rparr>] (dir_of keys_dir)
             (hdrs_of (str_lit ''t0ken'')) = Inr [(str_lit ''alice'', ed_c)]"
    by (simp add: d fetch_users_def demo_ed_def demo_def k)
       (simp add: keys_dir_def str_lit_def)
  have c: "remove_blank_lines (str_lit ''alice'' @ [10, 10] @ ed_c @ [10])
             = str_lit ''alice'' @ [10] @ ed_c"
    by (simp add: remove_blank_lines_def ed_c_def py_string_defs)
  have r: "render_template demo_ed [(str_lit ''alice'', ed_c)] world0 = (Inr (), ?w1)"
    using c by (simp add: render_template_def demo_ed_def demo_def)
  have i: "upload_aws_key_pairs demo_ed [(str_lit ''alice'', ed_c)] ?w1 = (Some [], ?w2)"
    by (simp add: upload_aws_key_pairs_def demo_ed_def demo_defs ed_c_def py_find_def str_lit_def Let_def)
  from lambda_handler_import_failure [OF a u t g f r i] f i a
  show ?thesis
    by (simp add: d)
qed

section \<open>Publishing the file\<close>

text \<open>
  C8: without the file \<open>/tmp/init.conf\<close>, \<open>upload_to_s3\<close> returns \<open>False\<close> and makes no
  call; with the file it makes the one upload call and returns whether that call
  completed; so it is true exactly when the file is there and the upload raised nothing.
  The result is a boolean in every case: no exception leaves the function. (Creating the
  client, before the \<open>try\<close>, is taken to succeed.)
\<close>

theorem upload_to_s3_result:
  "(init_conf w = None \<longrightarrow> upload_to_s3 c bucket_name w = (False, w))
   \<and> (init_conf w \<noteq> None \<longrightarrow>
        upload_to_s3 c bucket_name w
          = (upload_file c (str_lit ''/tmp/init.conf'') bucket_name (str_lit ''init.conf'') = None,
             w\<lparr>calls := calls w @
                  [UploadFile (str_lit ''/tmp/init.conf'') bucket_name (str_lit ''init.conf'')]\<rparr>))
   \<and> (fst (upload_to_s3 c bucket_name w) \<longleftrightarrow>
        init_conf w \<noteq> None \<and>
        upload_file c (str_lit ''/tmp/init.conf'') bucket_name (str_lit ''init.conf'') = None)"
proof -
  have f: "last (py_split 47 (str_lit ''/tmp/init.conf'')) = str_lit ''init.conf''"
    by (simp add: str_lit_def)
  show ?thesis
    by (cases "init_conf w";
        cases "upload_file c (str_lit ''/tmp/init.conf'') bucket_name (str_lit ''init.conf'')")
       (simp_all add: upload_to_s3_def Let_def f)
qed
theorem upload_to_s3_result_witness:
  "init_conf world0 = None
   \<and> upload_to_s3 demo (Some (str_lit ''bucket'')) world0 = (False, world0)
   \<and> init_conf world_conf \<noteq> None
   \<and> upload_to_s3 demo (Some (str_lit ''bucket'')) world_conf
       = (True, world_conf\<lparr>calls := [UploadFile (str_lit ''/tmp/init.conf'')
                                       (Some (str_lit ''bucket'')) (str_lit ''init.conf'')]\<rparr>)
   \<and> fst (upload_to_s3 demo_no_upload (Some (str_lit ''bucket'')) world_conf) = False"
proof -
  have n: "init_conf world0 = None" by (simp add: world0_def)
  have s: "init_conf world_conf \<noteq> None" by (simp add: world_conf_def)
  have ok: "upload_file demo (str_lit ''/tmp/init.conf'') (Some (str_lit ''bucket''))
              (str_lit ''init.conf'') = None"
    by (simp add: demo_def)
  have ko: "upload_file demo_no_upload (str_lit ''/tmp/init.conf'') (Some (str_lit ''bucket''))
              (str_lit ''init.conf'') \<noteq> None"
    by (simp add: demo_no_upload_def demo_def)
  have c: "calls world_conf = []" by (simp add: world_conf_def world0_def)
  from upload_to_s3_result [of world0 demo "Some (str_lit ''bucket'')"] n
  have 1: "upload_to_s3 demo (Some (str_lit ''bucket'')) world0 = (False, world0)"
    by blast
  from upload_to_s3_result [of world_conf demo "Some (str_lit ''bucket'')"] s ok c
  have 2: "upload_to_s3 demo (Some (str_lit ''bucket'')) world_conf
       = (True, world_conf\<lparr>calls := [UploadFile (str_lit ''/tmp/init.conf'')
                                       (Some (str_lit ''bucket'')) (str_lit ''init.conf'')]\<rparr>)"
    by simp
  from upload_to_s3_result [of world_conf demo_no_upload "Some (str_lit ''bucket'')"] ko
  have 3: "fst (upload_to_s3 demo_no_upload (Some (str_lit ''bucket'')) world_conf) = False"
    by blast
  from n s 1 2 3 show ?thesis by blast
qed

end
